theory Spec2Isabelle
  imports Complex_Main
begin

section \<open>Data model\<close>

text \<open>
  The detectors and the fusion engine are Python services whose decision logic is
  recorded in the repository's model reference (\<^verbatim>\<open>CORE_MODELS_REFERENCE.md\<close>) and in
  the two integration plans. Python floats are modelled as \<^typ>\<open>real\<close>: every
  statement below is about exact arithmetic, rounding is not modelled.

  The response schema lists three classifications and three confidence levels.
\<close>

datatype classification = AUTHENTIC | SUSPICIOUS | MANIPULATED

datatype confidence = LOW | MEDIUM | HIGH

fun classification_label :: "classification \<Rightarrow> string" where
  "classification_label AUTHENTIC = ''AUTHENTIC''"
| "classification_label SUSPICIOUS = ''SUSPICIOUS''"
| "classification_label MANIPULATED = ''MANIPULATED''"

text \<open>The values of the schema's field \<^verbatim>\<open>"classification": "AUTHENTIC|SUSPICIOUS|MANIPULATED"\<close>.\<close>

definition response_classifications :: "classification list" where
  "response_classifications = [AUTHENTIC, SUSPICIOUS, MANIPULATED]"

text \<open>
  Every analyser returns a dictionary with a \<^verbatim>\<open>prediction\<close> entry holding
  \<^verbatim>\<open>fake_probability\<close> and \<^verbatim>\<open>real_probability\<close>; the other entries differ from one
  analyser to the next (plots, features, labels) and live in the record's extension.
\<close>

record prediction =
  fake_probability :: real
  real_probability :: real

record analysis_result =
  prediction :: prediction

section \<open>Visual detector (three classes: 0 Artificial, 1 Deepfake, 2 Real)\<close>

text \<open>
  \<^verbatim>\<open>
  if predicted_class in [0, 1]:  # Artificial or Deepfake
      risk_score = (1.0 - prob_real) * 100.0
  else:  # Real
      risk_score = (1.0 - prob_real) * 100.0
  if risk_score >= 50:
      classification = "MANIPULATED"
  else:
      classification = "AUTHENTIC"
  \<close>
\<close>

definition visual_risk_score :: "nat \<Rightarrow> real \<Rightarrow> real" where
  "visual_risk_score predicted_class prob_real =
     (if predicted_class \<in> set [0, 1] then (1.0 - prob_real) * 100.0
      else (1.0 - prob_real) * 100.0)"

definition visual_classification :: "real \<Rightarrow> classification" where
  "visual_classification risk_score =
     (if risk_score \<ge> 50 then MANIPULATED else AUTHENTIC)"

text \<open>
  The integration plan of the same detector words the rule as
  \<^verbatim>\<open>Risk = (Prob(Deepfake) + Prob(AiGenerated)) * 100\<close>.
\<close>

definition plan_visual_risk :: "real \<Rightarrow> real \<Rightarrow> real" where
  "plan_visual_risk prob_deepfake prob_ai_generated =
     (prob_deepfake + prob_ai_generated) * 100"

section \<open>Temporal detector (two classes: 0 REAL, 1 FAKE)\<close>

text \<open>
  \<^verbatim>\<open>
  risk_score = prob_fake * 100.0
  if prob_fake > prob_real:
      classification = "MANIPULATED"
  else:
      classification = "AUTHENTIC"
  max_prob = max(prob_real, prob_fake)
  if max_prob >= 0.85:
      confidence = "HIGH"
  elif max_prob >= 0.65:
      confidence = "MEDIUM"
  else:
      confidence = "LOW"
  \<close>
\<close>

definition temporal_risk_score :: "real \<Rightarrow> real" where
  "temporal_risk_score prob_fake = prob_fake * 100.0"

definition temporal_classification :: "real \<Rightarrow> real \<Rightarrow> classification" where
  "temporal_classification prob_real prob_fake =
     (if prob_fake > prob_real then MANIPULATED else AUTHENTIC)"

definition temporal_confidence :: "real \<Rightarrow> real \<Rightarrow> confidence" where
  "temporal_confidence prob_real prob_fake =
     (let max_prob = max prob_real prob_fake
      in if max_prob \<ge> 0.85 then HIGH
         else if max_prob \<ge> 0.65 then MEDIUM
         else LOW)"

text \<open>
  The threshold rule of the integration plans: a risk above 50 is reported as fake (the
  label the services spell \<^verbatim>\<open>MANIPULATED\<close>), a risk of 50 or less as authentic.
\<close>

definition threshold_classification :: "real \<Rightarrow> classification" where
  "threshold_classification risk = (if risk > 50 then MANIPULATED else AUTHENTIC)"

section \<open>Softmax of the temporal detector\<close>

text \<open>
  \<^verbatim>\<open>
  def stable_softmax(logits):
      exp_logits = np.exp(logits - np.max(logits))
      return exp_logits / exp_logits.sum()
  \<close>
  \<^verbatim>\<open>np.max\<close> raises \<^verbatim>\<open>ValueError\<close> on an array without elements.
\<close>

datatype py_error = ValueError

definition np_max :: "real list \<Rightarrow> py_error + real" where
  "np_max xs = (case xs of [] \<Rightarrow> Inl ValueError | x # rest \<Rightarrow> Inr (fold max rest x))"

definition stable_softmax :: "real list \<Rightarrow> py_error + real list" where
  "stable_softmax logits =
     (case np_max logits of
        Inl e \<Rightarrow> Inl e
      | Inr m \<Rightarrow>
          (let exp_logits = map (\<lambda>x. exp (x - m)) logits
           in Inr (map (\<lambda>e. e / sum_list exp_logits) exp_logits)))"

text \<open>The textbook softmax, \<open>exp x\<^sub>i / \<Sum>\<^sub>j exp x\<^sub>j\<close>, that the stable form is compared with.\<close>

definition standard_softmax :: "real list \<Rightarrow> real list" where
  "standard_softmax logits = map (\<lambda>x. exp x / sum_list (map exp logits)) logits"

section \<open>Fusion engine\<close>

text \<open>
  \<^verbatim>\<open>
  def fuse_image_signals(visual_result, forensic_result):
      visual_weight = 0.70    # ViT model (primary)
      forensic_weight = 0.30  # Forensic (secondary)
      visual_score = visual_result['prediction']['fake_probability']
      forensic_score = forensic_result['prediction']['fake_probability']
      # Only include forensic if not neutral (0.5)
      if abs(forensic_score - 0.5) < 0.01:
          # Forensic model not loaded, use visual only
          final_score = visual_score
      else:
          final_score = (visual_score * visual_weight) + (forensic_score * forensic_weight)
      risk_score = final_score * 100.0
      return risk_score
  \<close>
\<close>

definition fuse_image_signals ::
  "'a analysis_result_scheme \<Rightarrow> 'b analysis_result_scheme \<Rightarrow> real" where
  "fuse_image_signals visual_result forensic_result =
     (let visual_weight = 0.70;
          forensic_weight = 0.30;
          visual_score = fake_probability (prediction visual_result);
          forensic_score = fake_probability (prediction forensic_result);
          final_score =
            (if \<bar>forensic_score - 0.5\<bar> < 0.01 then visual_score
             else (visual_score * visual_weight) + (forensic_score * forensic_weight));
          risk_score = final_score * 100.0
      in risk_score)"

text \<open>
  The score of a single detector fused on its own: \<^verbatim>\<open>final_score\<close> is that detector's
  score, as in the source's branch \<^verbatim>\<open># Forensic model not loaded, use visual only\<close>.
\<close>

definition single_signal_fusion :: "'a analysis_result_scheme \<Rightarrow> real" where
  "single_signal_fusion result =
     (let final_score = fake_probability (prediction result);
          risk_score = final_score * 100.0
      in risk_score)"

section \<open>Concrete inputs\<close>

text \<open>
  An analyser result reporting fake probability \<open>p\<close> and real probability \<open>1 - p\<close>, and
  the forensic analyser's documented placeholder
  \<^verbatim>\<open>"fake_probability": 0.5,   // Neutral if no ONNX model\<close>.
\<close>

definition result_with :: "real \<Rightarrow> analysis_result" where
  "result_with p = \<lparr>prediction = \<lparr>fake_probability = p, real_probability = 1 - p\<rparr>\<rparr>"

definition neutral_result :: analysis_result where
  "neutral_result = \<lparr>prediction = \<lparr>fake_probability = 0.5, real_probability = 0.5\<rparr>\<rparr>"

section \<open>Auxiliary facts\<close>

lemmas fusion_defs = fuse_image_signals_def single_signal_fusion_def Let_def

lemma visual_classification_off_tie:
  "risk_score \<noteq> 50 \<Longrightarrow> visual_classification risk_score = threshold_classification risk_score"
  by (simp add: visual_classification_def threshold_classification_def)

lemma weighted_average_bounds:
  fixes v f vw fw :: real
  assumes "0 \<le> vw" "0 \<le> fw" "vw + fw \<le> 1" "0 \<le> v" "v \<le> 1" "0 \<le> f" "f \<le> 1"
  shows "0 \<le> v * vw + f * fw" and "v * vw + f * fw \<le> 1"
proof -
  show "0 \<le> v * vw + f * fw" using assms by simp
  have "v * vw \<le> 1 * vw" using assms by (intro mult_right_mono) simp_all
  moreover have "f * fw \<le> 1 * fw" using assms by (intro mult_right_mono) simp_all
  ultimately show "v * vw + f * fw \<le> 1" using assms by simp
qed

section \<open>Classification threshold\<close>

text \<open>
  C1. The classification is MANIPULATED exactly when the risk score is strictly above 50,
  and AUTHENTIC at a risk score of exactly 50. The visual detector compares with
  \<^verbatim>\<open>>=\<close>: at real probability 0.5 (class probabilities 0.25, 0.25, 0.5, predicted class
  Real) its risk score is exactly 50 and its classification is MANIPULATED, where the
  threshold rule of the integration plans and the temporal detector's comparison both give
  AUTHENTIC.
\<close>

theorem visual_tie_is_manipulated:
  "visual_risk_score 2 0.5 = 50 \<and>
   visual_classification (visual_risk_score 2 0.5) = MANIPULATED \<and>
   threshold_classification (visual_risk_score 2 0.5) = AUTHENTIC \<and>
   temporal_classification 0.5 0.5 = AUTHENTIC"
  by (simp add: visual_risk_score_def visual_classification_def threshold_classification_def
      temporal_classification_def)

section \<open>Total signal loss\<close>

text \<open>
  C2, as claimed: when every detector is neutral the engine reports INCONCLUSIVE and no
  score. The source returns the risk score 50 for two neutral results, and INCONCLUSIVE
  is not among the labels of the response schema.
\<close>

theorem all_neutral_still_scored:
  "fuse_image_signals neutral_result neutral_result = 50 \<and>
   ''INCONCLUSIVE'' \<notin> set (map classification_label response_classifications)"
  by (simp add: fusion_defs neutral_result_def response_classifications_def)

text \<open>
  C2, amended. When the visual and the forensic result are both neutral (within 0.01 of
  0.5), \<open>fuse_image_signals\<close> still returns a risk score: the visual score times 100,
  strictly between 49 and 51. No classification of the response schema is labelled
  INCONCLUSIVE.
\<close>

theorem all_neutral_fusion_returns_score:
  assumes "\<bar>fake_probability (prediction visual_result) - 0.5\<bar> < 0.01"
    and "\<bar>fake_probability (prediction forensic_result) - 0.5\<bar> < 0.01"
  shows "fuse_image_signals visual_result forensic_result =
           fake_probability (prediction visual_result) * 100 \<and>
         49 < fuse_image_signals visual_result forensic_result \<and>
         fuse_image_signals visual_result forensic_result < 51 \<and>
         classification_label c \<noteq> ''INCONCLUSIVE''"
proof -
  have score: "fuse_image_signals visual_result forensic_result =
      fake_probability (prediction visual_result) * 100"
    using assms(2) by (simp add: fuse_image_signals_def Let_def)
  have label: "classification_label c \<noteq> ''INCONCLUSIVE''"
    by (cases c) simp_all
  from assms(1) have "\<bar>fake_probability (prediction visual_result) - 1 / 2\<bar> < 1 / 100"
    by simp
  then have "49 < fake_probability (prediction visual_result) * 100"
    and "fake_probability (prediction visual_result) * 100 < 51"
    by linarith+
  with score label show ?thesis by simp
qed

theorem all_neutral_fusion_returns_score_witness:
  "fuse_image_signals neutral_result neutral_result = 50 \<and>
   classification_label MANIPULATED \<noteq> ''INCONCLUSIVE''"
  using all_neutral_fusion_returns_score [of neutral_result neutral_result MANIPULATED]
  by (simp add: neutral_result_def)

section \<open>Neutral detectors\<close>

text \<open>
  C3, as claimed: a detector reporting exactly 0.5 changes nothing compared with leaving
  it out. A visual result of exactly 0.5 next to a forensic result of 0.9 is fused to 62,
  while the forensic result fused on its own gives 90: the neutral visual score enters the
  weighted average with weight 0.70.
\<close>

theorem neutral_visual_not_excluded:
  "\<bar>fake_probability (prediction neutral_result) - 0.5\<bar> < 0.01 \<and>
   fuse_image_signals neutral_result (result_with 0.9) = 62 \<and>
   single_signal_fusion (result_with 0.9) = 90 \<and>
   fuse_image_signals neutral_result (result_with 0.9) \<noteq> single_signal_fusion (result_with 0.9)"
  by (simp add: fusion_defs neutral_result_def result_with_def)

text \<open>
  C3, amended. When the forensic result is neutral (its fake probability within 0.01 of
  0.5), the fused risk score is the one of the visual result fused on its own: the
  forensic result is left out of the weighted average. The neutrality test is applied to
  the forensic result only.
\<close>

theorem neutral_forensic_excluded:
  assumes "\<bar>fake_probability (prediction forensic_result) - 0.5\<bar> < 0.01"
  shows "fuse_image_signals visual_result forensic_result = single_signal_fusion visual_result"
  using assms by (simp add: fuse_image_signals_def single_signal_fusion_def Let_def)

theorem neutral_forensic_excluded_witness:
  "fuse_image_signals (result_with 0.9) neutral_result = 90 \<and>
   single_signal_fusion (result_with 0.9) = 90"
  using neutral_forensic_excluded [of neutral_result "result_with 0.9"]
  by (simp add: neutral_result_def result_with_def single_signal_fusion_def)

section \<open>Weights\<close>



section \<open>Ranges\<close>

text \<open>
  C5. For fake probabilities in \<open>[0,1]\<close>, the fused fake probability (the source's
  \<^verbatim>\<open>final_score\<close>, the risk score over 100) lies in \<open>[0,1]\<close>, the risk score
  \<open>fuse_image_signals\<close> returns is the fused probability times 100 and lies in \<open>[0,100]\<close>,
  and it equals that product clamped to \<open>[0,100]\<close>. The weights are the source's 0.70 and
  0.30, which are non-negative.
\<close>

theorem fuse_image_signals_in_range:
  assumes "0 \<le> fake_probability (prediction visual_result)"
    and "fake_probability (prediction visual_result) \<le> 1"
    and "0 \<le> fake_probability (prediction forensic_result)"
    and "fake_probability (prediction forensic_result) \<le> 1"
  shows "0 \<le> fuse_image_signals visual_result forensic_result / 100 \<and>
         fuse_image_signals visual_result forensic_result / 100 \<le> 1 \<and>
         0 \<le> fuse_image_signals visual_result forensic_result \<and>
         fuse_image_signals visual_result forensic_result \<le> 100 \<and>
         fuse_image_signals visual_result forensic_result =
           (if \<bar>fake_probability (prediction forensic_result) - 0.5\<bar> < 0.01
            then fake_probability (prediction visual_result)
            else fake_probability (prediction visual_result) * 0.70 +
                 fake_probability (prediction forensic_result) * 0.30) * 100 \<and>
         fuse_image_signals visual_result forensic_result =
           max 0 (min 100
             ((if \<bar>fake_probability (prediction forensic_result) - 0.5\<bar> < 0.01
               then fake_probability (prediction visual_result)
               else fake_probability (prediction visual_result) * 0.70 +
                    fake_probability (prediction forensic_result) * 0.30) * 100))"
proof -
  let ?v = "fake_probability (prediction visual_result)"
  let ?f = "fake_probability (prediction forensic_result)"
  let ?p = "if \<bar>?f - 0.5\<bar> < 0.01 then ?v else ?v * 0.70 + ?f * 0.30"
  have w: "(0::real) \<le> 0.70" "(0::real) \<le> 0.30" "(0.70::real) + 0.30 \<le> 1" by simp_all
  have avg: "0 \<le> ?v * 0.70 + ?f * 0.30" "?v * 0.70 + ?f * 0.30 \<le> 1"
    using weighted_average_bounds [OF w assms] by simp_all
  have p: "0 \<le> ?p" "?p \<le> 1"
    using assms(1,2) avg by (simp_all only: if_split) auto
  have score: "fuse_image_signals visual_result forensic_result = ?p * 100"
    by (simp add: fuse_image_signals_def Let_def)
  have range: "0 \<le> ?p * 100" "?p * 100 \<le> 100"
    using p by linarith+
  have clamp: "max 0 (min 100 (?p * 100)) = ?p * 100"
    using range by (simp only: max_def min_def) auto
  have ratio: "?p * 100 / 100 = ?p" by simp
  show ?thesis
    unfolding score clamp ratio using p range by blast
qed

theorem fuse_image_signals_in_range_witness:
  "fuse_image_signals (result_with 0.9) (result_with 0.2) = 69 \<and>
   fuse_image_signals (result_with 0.9) (result_with 0.2) = max 0 (min 100 (0.69 * 100)) \<and>
   fuse_image_signals (result_with 1) (result_with 1) = 100 \<and>
   fuse_image_signals (result_with 0) (result_with 0) = 0"
  using fuse_image_signals_in_range [of "result_with 0.9" "result_with 0.2"]
  by (simp add: fusion_defs result_with_def)

section \<open>Confidence tier\<close>

text \<open>
  C6. For a fake probability \<open>p\<close> (and the real probability \<open>1 - p\<close>) the confidence is
  HIGH exactly when \<open>max p (1 - p)\<close> is at least 0.85, MEDIUM exactly when it is at least
  0.65 and below 0.85, and LOW exactly when it is below 0.65.
\<close>

theorem confidence_tier_thresholds:
  "(temporal_confidence (1 - p) p = HIGH) = (0.85 \<le> max p (1 - p)) \<and>
   (temporal_confidence (1 - p) p = MEDIUM) = (0.65 \<le> max p (1 - p) \<and> max p (1 - p) < 0.85) \<and>
   (temporal_confidence (1 - p) p = LOW) = (max p (1 - p) < 0.65)"
  by (simp add: temporal_confidence_def Let_def max.commute not_le)

section \<open>Collapse to a fake probability\<close>

text \<open>
  C7. The visual (three-class) detector derives its risk score as \<open>(1 - P(real)) * 100\<close>
  whatever class was predicted, so its fake probability is \<open>1 - P(real)\<close>; the temporal
  (binary) detector derives it as \<open>P(fake) * 100\<close>, so its fake probability is \<open>P(fake)\<close>.
  When the three class probabilities sum to 1, the plan's
  \<open>(P(deepfake) + P(AI generated)) * 100\<close> is the same number. All three are functions of
  the probabilities alone.
\<close>

theorem collapse_rules:
  "visual_risk_score predicted_class prob_real / 100 = 1 - prob_real \<and>
   temporal_risk_score prob_fake / 100 = prob_fake \<and>
   (prob_artificial + prob_deepfake + prob_real = 1 \<longrightarrow>
      plan_visual_risk prob_deepfake prob_artificial = visual_risk_score predicted_class prob_real)"
  by (auto simp add: visual_risk_score_def temporal_risk_score_def plan_visual_risk_def)

theorem collapse_rules_witness:
  "(0.12::real) + 0.70 + 0.18 = 1 \<and> visual_risk_score 1 0.18 = 82 \<and>
   plan_visual_risk 0.70 0.12 = 82 \<and> temporal_risk_score 0.8523 = 85.23"
  using collapse_rules [of 1 "0.18" "0.8523" "0.12" "0.70"]
  by (simp add: temporal_risk_score_def)

section \<open>Determinism of fusion\<close>

text \<open>
  C8. Two runs of the fusion on identical results return identical risk scores; the
  weights are constants of the function. The fusion reads nothing but the two
  \<^verbatim>\<open>fake_probability\<close> entries, so equality of these is all the two runs need to share.
\<close>

theorem fusion_two_run_determinism:
  assumes "fake_probability (prediction visual_result') = fake_probability (prediction visual_result)"
    and "fake_probability (prediction forensic_result') = fake_probability (prediction forensic_result)"
  shows "fuse_image_signals visual_result' forensic_result' =
           fuse_image_signals visual_result forensic_result"
  using assms by (simp add: fuse_image_signals_def)

theorem fusion_two_run_determinism_witness:
  "fuse_image_signals \<lparr>prediction = \<lparr>fake_probability = 0.9, real_probability = 0.1\<rparr>\<rparr>
                      \<lparr>prediction = \<lparr>fake_probability = 0.2, real_probability = 0.8\<rparr>\<rparr> =
   fuse_image_signals \<lparr>prediction = \<lparr>fake_probability = 0.9, real_probability = 0\<rparr>\<rparr>
                      \<lparr>prediction = \<lparr>fake_probability = 0.2, real_probability = 0\<rparr>\<rparr>"
  using fusion_two_run_determinism
    [of "\<lparr>prediction = \<lparr>fake_probability = 0.9, real_probability = 0.1\<rparr>\<rparr>"
        "\<lparr>prediction = \<lparr>fake_probability = 0.9, real_probability = 0\<rparr>\<rparr>"
        "\<lparr>prediction = \<lparr>fake_probability = 0.2, real_probability = 0.8\<rparr>\<rparr>"
        "\<lparr>prediction = \<lparr>fake_probability = 0.2, real_probability = 0\<rparr>\<rparr>"]
  by simp

section \<open>The temporal rule and the threshold rule\<close>

text \<open>
  C9. When the two class probabilities of the temporal detector sum to 1, its rule
  (MANIPULATED if \<open>prob_fake > prob_real\<close>, else AUTHENTIC) and the threshold rule
  (MANIPULATED if \<open>prob_fake * 100 > 50\<close>, else AUTHENTIC) give the same classification.
\<close>

theorem temporal_rule_is_threshold_rule:
  assumes "prob_real + prob_fake = 1"
  shows "temporal_classification prob_real prob_fake =
         threshold_classification (temporal_risk_score prob_fake)"
proof -
  have "prob_real = 1 - prob_fake" using assms by simp
  then show ?thesis
    by (simp add: temporal_classification_def threshold_classification_def temporal_risk_score_def)
qed

theorem temporal_rule_is_threshold_rule_witness:
  "(0.5::real) + 0.5 = 1 \<and>
   temporal_classification 0.5 0.5 = AUTHENTIC \<and>
   threshold_classification (temporal_risk_score 0.5) = AUTHENTIC"
  using temporal_rule_is_threshold_rule [of "0.5" "0.5"]
  by (simp add: temporal_classification_def)

section \<open>Stable softmax\<close>

lemma sum_list_exp_shift:
  "sum_list (map (\<lambda>x. exp (x - m)) xs) = sum_list (map exp xs) / exp (m::real)"
  by (induction xs) (simp_all add: exp_diff add_divide_distrib)

lemma sum_list_divide_const:
  "sum_list (map (\<lambda>x. g x / c) xs) = sum_list (map g xs) / (c::real)"
  by (induction xs) (simp_all add: add_divide_distrib)

lemma sum_list_exp_nonneg: "0 \<le> sum_list (map exp (xs::real list))"
  by (induction xs) simp_all

lemma sum_list_exp_pos: "xs \<noteq> [] \<Longrightarrow> 0 < sum_list (map exp (xs::real list))"
proof (cases xs)
  case Nil
  assume "xs \<noteq> []" with Nil show ?thesis by simp
next
  case (Cons x rest)
  have "0 < exp x" by simp
  with sum_list_exp_nonneg [of rest] have "0 < exp x + sum_list (map exp rest)"
    by linarith
  with Cons show ?thesis by simp
qed

lemma exp_le_sum_list_exp: "x \<in> set xs \<Longrightarrow> exp x \<le> sum_list (map exp (xs::real list))"
proof (induction xs)
  case Nil
  then show ?case by simp
next
  case (Cons y ys)
  show ?case
  proof (cases "x = y")
    case True
    with sum_list_exp_nonneg [of ys] show ?thesis by simp
  next
    case False
    with Cons have "exp x \<le> sum_list (map exp ys)" by simp
    moreover have "0 \<le> exp y" by simp
    ultimately have "exp x \<le> exp y + sum_list (map exp ys)" by linarith
    then show ?thesis by simp
  qed
qed

lemma stable_softmax_shift:
  assumes "logits \<noteq> []"
  shows "map (\<lambda>e. e / sum_list (map (\<lambda>x. exp (x - m)) logits)) (map (\<lambda>x. exp (x - m)) logits)
         = standard_softmax logits"
proof -
  have "exp (x - m) / (sum_list (map exp logits) / exp m) = exp x / sum_list (map exp logits)"
    for x :: real
    by (simp add: exp_diff)
  then show ?thesis
    by (simp add: standard_softmax_def sum_list_exp_shift comp_def)
qed

lemma standard_softmax_bounds:
  assumes "logits \<noteq> []" and "p \<in> set (standard_softmax logits)"
  shows "0 \<le> p \<and> p \<le> 1"
proof -
  from assms(2) obtain x where x: "x \<in> set logits" and p: "p = exp x / sum_list (map exp logits)"
    by (auto simp add: standard_softmax_def)
  have pos: "0 < sum_list (map exp logits)" using assms(1) by (rule sum_list_exp_pos)
  from x have "exp x \<le> sum_list (map exp logits)" by (rule exp_le_sum_list_exp)
  with pos show ?thesis unfolding p by simp
qed

lemma standard_softmax_sum:
  assumes "logits \<noteq> []"
  shows "sum_list (standard_softmax logits) = 1"
proof -
  have "0 < sum_list (map exp logits)" using assms by (rule sum_list_exp_pos)
  then show ?thesis
    by (simp add: standard_softmax_def sum_list_divide_const)
qed

lemma stable_softmax_empty: "stable_softmax [] = Inl ValueError"
  by (simp add: stable_softmax_def np_max_def)

text \<open>
  C10. For every logit vector with at least one entry, \<open>stable_softmax\<close> returns, in exact
  arithmetic, the standard softmax of the same logits; every component of it lies in
  \<open>[0,1]\<close> and the components sum to 1.
\<close>

theorem stable_softmax_is_softmax:
  assumes "logits \<noteq> []"
  shows "stable_softmax logits = Inr (standard_softmax logits) \<and>
         list_all (\<lambda>p. 0 \<le> p \<and> p \<le> 1) (standard_softmax logits) \<and>
         sum_list (standard_softmax logits) = 1"
proof -
  from assms obtain x rest where "logits = x # rest" by (cases logits) auto
  then have "np_max logits = Inr (fold max rest x)" by (simp add: np_max_def)
  then have "stable_softmax logits = Inr (standard_softmax logits)"
    using stable_softmax_shift [OF assms] by (simp add: stable_softmax_def Let_def)
  moreover have "list_all (\<lambda>p. 0 \<le> p \<and> p \<le> 1) (standard_softmax logits)"
    using standard_softmax_bounds [OF assms] by (simp add: list_all_iff)
  ultimately show ?thesis using standard_softmax_sum [OF assms] by simp
qed

theorem stable_softmax_is_softmax_witness:
  "stable_softmax [0, 0] = Inr [1 / 2, 1 / 2] \<and>
   stable_softmax [2, 1] = Inr (standard_softmax [2, 1])"
  using stable_softmax_is_softmax [of "[0, 0]"] stable_softmax_is_softmax [of "[2, 1]"]
  by (simp add: standard_softmax_def)

end
